theory Spec2Isabelle
  imports Main
begin

section \<open>Values, exceptions and the objects handed around\<close>

text \<open>
  The Python values that travel through \<^verbatim>\<open>Chain.call\<close>: \<^verbatim>\<open>None\<close>, a string, an object
  with a \<^verbatim>\<open>content\<close> attribute (a LangChain message) and any other object (a stream
  generator, say), which is opaque here and named by a number.
\<close>

datatype pyval = PNone | PStr string | PMessage pyval | PObject nat

text \<open>
  An instance of Python's \<^verbatim>\<open>Exception\<close>: the \<^verbatim>\<open>AttributeError\<close> of a failed attribute
  lookup (with the attribute's name), or any other exception (with its message).
\<close>

datatype exn = AttributeError string | Raised string

text \<open>
  Attribute access \<^verbatim>\<open>response.content\<close> (line 99): only a message carries the attribute.
\<close>

fun content :: "pyval \<Rightarrow> exn + pyval" where
  "content (PMessage v) = Inr v"
| "content PNone = Inl (AttributeError ''content'')"
| "content (PStr s) = Inl (AttributeError ''content'')"
| "content (PObject n) = Inl (AttributeError ''content'')"

text \<open>
  \<^verbatim>\<open>ModelItem\<close>: of the model only the \<^verbatim>\<open>langchain\<close> dictionary is read; its \<^verbatim>\<open>'mode'\<close>
  entry, a list of strings, names the sub-modes the model offers.
\<close>

record model_item =
  langchain :: "string \<rightharpoonup> string list"

text \<open>
  \<^verbatim>\<open>CtxItem\<close>: one conversational turn. The fields are those \<^verbatim>\<open>Chain.call\<close> reads or
  writes; names may be \<^verbatim>\<open>None\<close>.
\<close>

record ctx_item =
  input_name :: "string option"
  output_name :: "string option"
  ctx_output :: pyval
  ctx_stream :: pyval
  input_tokens :: int

text \<open>
  Modelled from the spec: the constructor of \<^verbatim>\<open>CtxItem\<close> (module \<^verbatim>\<open>pygpt_net.item.ctx\<close>)
  is not among the sources. An empty context has no names, no output, no stream and a
  token count of zero.
\<close>

definition CtxItem_new :: ctx_item where
  "CtxItem_new =
     \<lparr>input_name = None, output_name = None, ctx_output = PNone, ctx_stream = PNone,
      input_tokens = 0\<rparr>"

text \<open>
  Modelled from the spec: \<^verbatim>\<open>CtxItem.set_output(output, name)\<close> (same module) is not among
  the sources. The context records the output text and the speaker name of the turn, so
  the method stores the two.
\<close>

definition set_output :: "pyval \<Rightarrow> string option \<Rightarrow> ctx_item \<Rightarrow> ctx_item" where
  "set_output out name c = c\<lparr>ctx_output := out, output_name := name\<rparr>"

text \<open>
  \<^verbatim>\<open>BridgeContext\<close>: the fields \<^verbatim>\<open>Chain.call\<close> reads. Every other field the class has lives
  in the record's extension, so a function on \<open>'a bridge_context_scheme\<close> takes a bridge
  context with any further content.
\<close>

record bridge_context =
  ctx :: "ctx_item option"
  history :: "ctx_item list"
  model :: model_item
  prompt :: string
  system_prompt :: string
  stream :: bool

text \<open>The keyword arguments of a wrapper's \<^verbatim>\<open>send\<close> (lines 60-68 and 71-79).\<close>

record send_args =
  arg_prompt :: string
  arg_system_prompt :: string
  arg_model :: model_item
  arg_history :: "ctx_item list"
  arg_stream :: bool
  arg_ai_name :: "string option"
  arg_user_name :: "string option"

section \<open>The wrappers and the calls made on them\<close>

text \<open>
  \<^verbatim>\<open>Chat\<close> and \<^verbatim>\<open>Completion\<close> wrap LangChain and are outside this code. A run of
  \<^verbatim>\<open>Chain.call\<close> calls \<^verbatim>\<open>send\<close> once and then, when it returned, \<^verbatim>\<open>get_used_tokens\<close> once,
  so what the wrappers do in a run is what these calls give back: \<^verbatim>\<open>send\<close> returns a value
  or raises; \<^verbatim>\<open>get_used_tokens\<close> is a getter of a counter and is taken to return. The
  wrappers get no reference to the context item and are taken not to touch it.
\<close>

record wrappers =
  chat_send :: "send_args \<Rightarrow> exn + pyval"
  chat_get_used_tokens :: int
  completion_send :: "send_args \<Rightarrow> exn + pyval"
  completion_get_used_tokens :: int

text \<open>
  The calls \<^verbatim>\<open>Chain.call\<close> makes on objects outside itself, in order: the trace of a run.
  \<open>DebugLog\<close> is \<^verbatim>\<open>self.window.core.debug.log(e)\<close>.
\<close>

datatype chain_call =
    ChatSend send_args
  | ChatGetUsedTokens
  | CompletionSend send_args
  | CompletionGetUsedTokens
  | DebugLog exn

section \<open>Chain.call\<close>

text \<open>Lines 40-43: the context item, a fresh one when the bridge context has none.\<close>

definition ctx_of :: "'a bridge_context_scheme \<Rightarrow> ctx_item" where
  "ctx_of context = (case ctx context of None \<Rightarrow> CtxItem_new | Some c \<Rightarrow> c)"

text \<open>Lines 49-56: the sub-mode, \<^verbatim>\<open>'chat'\<close> unless the model says otherwise.\<close>

definition select_sub_mode :: "model_item \<Rightarrow> string" where
  "select_sub_mode m =
     (case langchain m ''mode'' of
        None \<Rightarrow> ''chat''
      | Some modes \<Rightarrow>
          if ''chat'' \<in> set modes then ''chat''
          else if ''completion'' \<in> set modes then ''completion''
          else ''chat'')"

text \<open>The arguments both branches pass to \<^verbatim>\<open>send\<close>.\<close>

definition send_args_of :: "'a bridge_context_scheme \<Rightarrow> send_args" where
  "send_args_of context =
     \<lparr>arg_prompt = prompt context,
      arg_system_prompt = system_prompt context,
      arg_model = model context,
      arg_history = history context,
      arg_stream = stream context,
      arg_ai_name = output_name (ctx_of context),
      arg_user_name = input_name (ctx_of context)\<rparr>"

text \<open>
  Lines 58-84, the \<^verbatim>\<open>try\<close> block with its handler: the response and the used tokens, or the
  exception after it was logged; with the calls made. A sub-mode that is neither
  \<^verbatim>\<open>'chat'\<close> nor \<^verbatim>\<open>'completion'\<close> calls nothing and leaves \<^verbatim>\<open>response = None\<close>,
  \<^verbatim>\<open>used_tokens = 0\<close>.
\<close>

definition try_send ::
  "wrappers \<Rightarrow> string \<Rightarrow> send_args \<Rightarrow> (exn + pyval \<times> int) \<times> chain_call list" where
  "try_send W sub_mode args =
     (if sub_mode = ''chat'' then
        (case chat_send W args of
           Inl e \<Rightarrow> (Inl e, [ChatSend args, DebugLog e])
         | Inr response \<Rightarrow>
             (Inr (response, chat_get_used_tokens W), [ChatSend args, ChatGetUsedTokens]))
      else if sub_mode = ''completion'' then
        (case completion_send W args of
           Inl e \<Rightarrow> (Inl e, [CompletionSend args, DebugLog e])
         | Inr response \<Rightarrow>
             (Inr (response, completion_get_used_tokens W),
              [CompletionSend args, CompletionGetUsedTokens]))
      else (Inr (PNone, 0), []))"

text \<open>
  Lines 86-106: what is done with the response. The result is the return value (or the
  exception raised) and the context item as the call leaves it.
\<close>

definition store_response ::
  "string \<Rightarrow> bool \<Rightarrow> string option \<Rightarrow> pyval \<Rightarrow> int \<Rightarrow> ctx_item \<Rightarrow> (exn + bool) \<times> ctx_item" where
  "store_response sub_mode strm ai_name response used_tokens c =
     (if strm then
        (Inr True,
         set_output (PStr '''') ai_name (c\<lparr>ctx_stream := response, input_tokens := used_tokens\<rparr>))
      else if response = PNone then (Inr False, c)
      else
        (case (if sub_mode = ''chat'' then content response
               else if sub_mode = ''completion'' then Inr response
               else Inr PNone) of
           Inl e \<Rightarrow> (Inl e, c)
         | Inr out \<Rightarrow> (Inr True, set_output out ai_name c)))"

text \<open>
  \<^verbatim>\<open>Chain.call(context, extra)\<close>; \<^verbatim>\<open>extra\<close> is never read and is left out. The result is
  the return value or the exception, the context item after the call, and the trace.
\<close>

definition Chain_call ::
  "wrappers \<Rightarrow> 'a bridge_context_scheme \<Rightarrow> (exn + bool) \<times> ctx_item \<times> chain_call list" where
  "Chain_call W context =
     (let c = ctx_of context;
          ai_name = output_name c;
          sub_mode = select_sub_mode (model context)
      in case try_send W sub_mode (send_args_of context) of
           (Inl e, tr) \<Rightarrow> (Inl e, c, tr)
         | (Inr (response, used_tokens), tr) \<Rightarrow>
             (case store_response sub_mode (stream context) ai_name response used_tokens c of
                (res, c') \<Rightarrow> (res, c', tr)))"

section \<open>The mode controller\<close>

text \<open>
  \<^verbatim>\<open>Mode\<close> works on the \<^verbatim>\<open>window\<close> object graph. What it reads there: the flag
  \<^verbatim>\<open>window.controller.chat.input.generating\<close>, \<^verbatim>\<open>window.core.ctx.current\<close> and
  \<^verbatim>\<open>window.core.ctx.assistant\<close> (each may be \<^verbatim>\<open>None\<close>), the lookup
  \<^verbatim>\<open>window.core.modes.get_by_idx\<close>, which returns a mode name or raises for an index it
  does not have, and the translation \<^verbatim>\<open>trans\<close> of a label.
\<close>

record window =
  generating :: bool
  ctx_current :: "nat option"
  ctx_assistant :: "string option"
  get_by_idx :: "int \<Rightarrow> exn + string"
  trans :: "string \<Rightarrow> string"

text \<open>\<^verbatim>\<open>Event(name, data)\<close> of the dispatcher, with the two event names \<^verbatim>\<open>Mode\<close> uses.\<close>

datatype event_name = MODE_SELECT | MODE_BEFORE

datatype event = Event event_name "(string \<times> string) list"

text \<open>
  Everything else \<^verbatim>\<open>Mode\<close> does is a call on another controller, on the configuration or
  on the dispatcher. Those objects are outside this code, so a method is modelled by the
  calls it makes, in order, each taken to return; \<open>ConfigSet k v\<close> is
  \<^verbatim>\<open>window.core.config.set(k, v)\<close>. What a call does to the window is not modelled: the
  fields of \<open>window\<close> are the values as the method reads them.
\<close>

datatype mode_call =
    PresetsSelectDefault
  | AssistantSelectById string
  | AssistantSelectCurrent
  | ConfigSet string string
  | AttachmentUpdate
  | CtxUpdateCtx
  | UiUpdate
  | UiStatus string
  | CtxCommonUpdateLabelByCurrent
  | Dispatch event

text \<open>\<^verbatim>\<open>Mode.change_locked\<close> (lines 171-178).\<close>

definition Mode_change_locked :: "window \<Rightarrow> bool" where
  "Mode_change_locked w = generating w"

text \<open>\<^verbatim>\<open>Mode.set(mode)\<close> (lines 43-78).\<close>

definition Mode_set :: "window \<Rightarrow> string \<Rightarrow> mode_call list" where
  "Mode_set w mode =
     (if mode = ''assistant'' then
        PresetsSelectDefault #
        (case (ctx_current w, ctx_assistant w) of
           (Some cur, Some a) \<Rightarrow> [AssistantSelectById a]
         | _ \<Rightarrow> [AssistantSelectCurrent])
      else [])
     @ [ConfigSet ''mode'' mode,
        ConfigSet ''model'' '''',
        ConfigSet ''preset'' '''',
        AttachmentUpdate,
        CtxUpdateCtx,
        UiUpdate,
        UiStatus (trans w ''status.started'')]
     @ (if mode = ''assistant'' then [CtxCommonUpdateLabelByCurrent] else [])"

text \<open>
  \<^verbatim>\<open>Mode.select(idx)\<close> (lines 26-41): nothing when the change is locked; an exception of
  \<^verbatim>\<open>get_by_idx\<close> leaves the method before any call is made.
\<close>

definition Mode_select :: "window \<Rightarrow> int \<Rightarrow> (exn + unit) \<times> mode_call list" where
  "Mode_select w idx =
     (if Mode_change_locked w then (Inr (), [])
      else
        (case get_by_idx w idx of
           Inl e \<Rightarrow> (Inl e, [])
         | Inr mode \<Rightarrow>
             (Inr (), Mode_set w mode @ [Dispatch (Event MODE_SELECT [(''value'', mode)])])))"

text \<open>The writes to the configuration among the calls of a trace.\<close>

fun config_writes :: "mode_call list \<Rightarrow> (string \<times> string) list" where
  "config_writes [] = []"
| "config_writes (ConfigSet k v # cs) = (k, v) # config_writes cs"
| "config_writes (c # cs) = config_writes cs"

section \<open>Reading a run of Chain.call\<close>

text \<open>The three parts of a result.\<close>

definition outcome :: "(exn + bool) \<times> ctx_item \<times> chain_call list \<Rightarrow> exn + bool" where
  "outcome r = fst r"

definition ctx_after :: "(exn + bool) \<times> ctx_item \<times> chain_call list \<Rightarrow> ctx_item" where
  "ctx_after r = fst (snd r)"

definition trace :: "(exn + bool) \<times> ctx_item \<times> chain_call list \<Rightarrow> chain_call list" where
  "trace r = snd (snd r)"

text \<open>The \<^verbatim>\<open>send\<close> calls of a trace, each with the wrapper it went to and its arguments.\<close>

datatype wrapper_name = Chat | Completion

fun sends :: "chain_call list \<Rightarrow> (wrapper_name \<times> send_args) list" where
  "sends [] = []"
| "sends (ChatSend a # cs) = (Chat, a) # sends cs"
| "sends (CompletionSend a # cs) = (Completion, a) # sends cs"
| "sends (c # cs) = sends cs"

text \<open>What the \<^verbatim>\<open>send\<close> of the wrapper selected for a bridge context gives back.\<close>

definition selected_send :: "wrappers \<Rightarrow> 'a bridge_context_scheme \<Rightarrow> exn + pyval" where
  "selected_send W context =
     (if select_sub_mode (model context) = ''completion''
      then completion_send W (send_args_of context)
      else chat_send W (send_args_of context))"

text \<open>The counter of that wrapper.\<close>

definition selected_used_tokens :: "wrappers \<Rightarrow> 'a bridge_context_scheme \<Rightarrow> int" where
  "selected_used_tokens W context =
     (if select_sub_mode (model context) = ''completion''
      then completion_get_used_tokens W
      else chat_get_used_tokens W)"

text \<open>Whether the model's \<^verbatim>\<open>langchain\<close> dictionary has the key \<^verbatim>\<open>'mode'\<close> with \<open>s\<close> among its values.\<close>

definition lists_mode :: "model_item \<Rightarrow> string \<Rightarrow> bool" where
  "lists_mode m s =
     (case langchain m ''mode'' of None \<Rightarrow> False | Some modes \<Rightarrow> s \<in> set modes)"

section \<open>Sample inputs\<close>

text \<open>Three models: both sub-modes listed, only completion listed, no \<^verbatim>\<open>'mode'\<close> key.\<close>

definition both_model :: model_item where
  "both_model = \<lparr>langchain = [''mode'' \<mapsto> [''chat'', ''completion'']]\<rparr>"

definition completion_model :: model_item where
  "completion_model = \<lparr>langchain = [''mode'' \<mapsto> [''completion'']]\<rparr>"

definition plain_model :: model_item where
  "plain_model = \<lparr>langchain = [''provider'' \<mapsto> [''openai'']]\<rparr>"

text \<open>A context item with both speakers named, and one whose AI has no name.\<close>

definition sample_ctx :: ctx_item where
  "sample_ctx =
     \<lparr>input_name = Some ''User'', output_name = Some ''AI'', ctx_output = PStr ''old'',
      ctx_stream = PNone, input_tokens = 3\<rparr>"

definition unnamed_ctx :: ctx_item where
  "unnamed_ctx =
     \<lparr>input_name = Some ''User'', output_name = None, ctx_output = PStr ''old'',
      ctx_stream = PNone, input_tokens = 3\<rparr>"

text \<open>
  Wrappers for the sample runs. The prompt \<^verbatim>\<open>'boom'\<close> makes \<^verbatim>\<open>send\<close> raise and the empty
  prompt, or an AI without a name, makes it return \<^verbatim>\<open>None\<close>; a streamed call returns a
  generator, any other call a message (chat) or a string (completion).
\<close>

definition sample_chat_send :: "send_args \<Rightarrow> exn + pyval" where
  "sample_chat_send a =
     (if arg_prompt a = ''boom'' then Inl (Raised ''timeout'')
      else if arg_prompt a = '''' \<or> arg_ai_name a = None then Inr PNone
      else if arg_stream a then Inr (PObject 1)
      else Inr (PMessage (PStr ''Hello'')))"

definition sample_completion_send :: "send_args \<Rightarrow> exn + pyval" where
  "sample_completion_send a =
     (if arg_prompt a = ''boom'' then Inl (Raised ''timeout'')
      else if arg_prompt a = '''' \<or> arg_ai_name a = None then Inr PNone
      else if arg_stream a then Inr (PObject 2)
      else Inr (PStr ''Hello''))"

definition sample_wrappers :: wrappers where
  "sample_wrappers =
     \<lparr>chat_send = sample_chat_send, chat_get_used_tokens = 7,
      completion_send = sample_completion_send, completion_get_used_tokens = 5\<rparr>"

text \<open>A bridge context around \<open>sample_ctx\<close>, for a prompt, a streaming flag and a model.\<close>

definition sample_context :: "string \<Rightarrow> bool \<Rightarrow> model_item \<Rightarrow> bridge_context" where
  "sample_context p s m =
     \<lparr>ctx = Some sample_ctx, history = [], model = m, prompt = p,
      system_prompt = ''You are helpful'', stream = s\<rparr>"

text \<open>The arguments \<^verbatim>\<open>send\<close> gets for it.\<close>

definition sample_args :: "string \<Rightarrow> bool \<Rightarrow> model_item \<Rightarrow> send_args" where
  "sample_args p s m =
     \<lparr>arg_prompt = p, arg_system_prompt = ''You are helpful'', arg_model = m,
      arg_history = [], arg_stream = s, arg_ai_name = Some ''AI'',
      arg_user_name = Some ''User''\<rparr>"

text \<open>
  The same bridge context around \<open>unnamed_ctx\<close>, and one that carries a further field (an
  index into a list, say) next to the six.
\<close>

definition unnamed_context :: "string \<Rightarrow> bool \<Rightarrow> model_item \<Rightarrow> bridge_context" where
  "unnamed_context p s m =
     \<lparr>ctx = Some unnamed_ctx, history = [], model = m, prompt = p,
      system_prompt = ''You are helpful'', stream = s\<rparr>"

definition tagged_context ::
  "string \<Rightarrow> bool \<Rightarrow> model_item \<Rightarrow> nat bridge_context_scheme" where
  "tagged_context p s m =
     \<lparr>ctx = Some sample_ctx, history = [], model = m, prompt = p,
      system_prompt = ''You are helpful'', stream = s, \<dots> = 42\<rparr>"

text \<open>A window that is not generating, with three modes in its list.\<close>

definition sample_get_by_idx :: "int \<Rightarrow> exn + string" where
  "sample_get_by_idx i =
     (if i = 0 then Inr ''chat''
      else if i = 1 then Inr ''completion''
      else if i = 2 then Inr ''assistant''
      else Inl (Raised ''list index out of range''))"

definition sample_trans :: "string \<Rightarrow> string" where
  "sample_trans key = (if key = ''status.started'' then ''Ready'' else key)"

definition sample_window :: window where
  "sample_window =
     \<lparr>generating = False, ctx_current = Some 4, ctx_assistant = Some ''asst_1'',
      get_by_idx = sample_get_by_idx, trans = sample_trans\<rparr>"

section \<open>Helper facts\<close>

lemma select_sub_mode_cases:
  "select_sub_mode m = ''chat'' \<or> select_sub_mode m = ''completion''"
  by (simp add: select_sub_mode_def split: option.split)

lemma try_send_chat:
  "try_send W ''chat'' args =
     (case chat_send W args of
        Inl e \<Rightarrow> (Inl e, [ChatSend args, DebugLog e])
      | Inr response \<Rightarrow>
          (Inr (response, chat_get_used_tokens W), [ChatSend args, ChatGetUsedTokens]))"
  by (simp add: try_send_def)

lemma try_send_completion:
  "try_send W ''completion'' args =
     (case completion_send W args of
        Inl e \<Rightarrow> (Inl e, [CompletionSend args, DebugLog e])
      | Inr response \<Rightarrow>
          (Inr (response, completion_get_used_tokens W),
           [CompletionSend args, CompletionGetUsedTokens]))"
  by (simp add: try_send_def)

lemma Chain_call_chat:
  assumes "select_sub_mode (model context) = ''chat''"
  shows "Chain_call W context =
     (case chat_send W (send_args_of context) of
        Inl e \<Rightarrow> (Inl e, ctx_of context, [ChatSend (send_args_of context), DebugLog e])
      | Inr response \<Rightarrow>
          (case store_response ''chat'' (stream context) (output_name (ctx_of context))
                  response (chat_get_used_tokens W) (ctx_of context) of
             (res, c') \<Rightarrow>
               (res, c', [ChatSend (send_args_of context), ChatGetUsedTokens])))"
  using assms by (simp add: Chain_call_def Let_def try_send_chat split: sum.split)

lemma Chain_call_completion:
  assumes "select_sub_mode (model context) = ''completion''"
  shows "Chain_call W context =
     (case completion_send W (send_args_of context) of
        Inl e \<Rightarrow>
          (Inl e, ctx_of context, [CompletionSend (send_args_of context), DebugLog e])
      | Inr response \<Rightarrow>
          (case store_response ''completion'' (stream context)
                  (output_name (ctx_of context)) response (completion_get_used_tokens W)
                  (ctx_of context) of
             (res, c') \<Rightarrow>
               (res, c', [CompletionSend (send_args_of context), CompletionGetUsedTokens])))"
  using assms by (simp add: Chain_call_def Let_def try_send_completion split: sum.split)

lemma select_sub_mode_lists:
  "select_sub_mode m =
     (if lists_mode m ''chat'' then ''chat''
      else if lists_mode m ''completion'' then ''completion''
      else ''chat'')"
  by (simp add: select_sub_mode_def lists_mode_def split: option.split)

lemma Chain_call_returned:
  assumes "selected_send W context = Inr response"
  shows "outcome (Chain_call W context) =
           fst (store_response (select_sub_mode (model context)) (stream context)
                  (output_name (ctx_of context)) response (selected_used_tokens W context)
                  (ctx_of context))"
    and "ctx_after (Chain_call W context) =
           snd (store_response (select_sub_mode (model context)) (stream context)
                  (output_name (ctx_of context)) response (selected_used_tokens W context)
                  (ctx_of context))"
  using assms select_sub_mode_cases [of "model context"]
  by (auto simp: selected_send_def selected_used_tokens_def Chain_call_chat
      Chain_call_completion outcome_def ctx_after_def split: prod.split)

lemma config_writes_append:
  "config_writes (xs @ ys) = config_writes xs @ config_writes ys"
  by (induction xs rule: config_writes.induct) simp_all

text \<open>The sample inputs, evaluated.\<close>

lemma sample_sub_modes:
  "select_sub_mode both_model = ''chat''"
  "select_sub_mode completion_model = ''completion''"
  "select_sub_mode plain_model = ''chat''"
  by (simp_all add: select_sub_mode_def both_model_def completion_model_def plain_model_def)

lemma sample_lists_mode:
  "lists_mode both_model ''chat''"
  "\<not> lists_mode completion_model ''chat''"
  "lists_mode completion_model ''completion''"
  "\<not> lists_mode plain_model ''chat''"
  "\<not> lists_mode plain_model ''completion''"
  by (simp_all add: lists_mode_def both_model_def completion_model_def plain_model_def)

lemma sample_context_fields:
  "ctx_of (sample_context p s m) = sample_ctx"
  "model (sample_context p s m) = m"
  "stream (sample_context p s m) = s"
  "prompt (sample_context p s m) = p"
  "system_prompt (sample_context p s m) = ''You are helpful''"
  "history (sample_context p s m) = []"
  "send_args_of (sample_context p s m) = sample_args p s m"
  by (simp_all add: sample_context_def ctx_of_def send_args_of_def sample_args_def
      sample_ctx_def)

lemma unnamed_context_fields:
  "ctx_of (unnamed_context p s m) = unnamed_ctx"
  "model (unnamed_context p s m) = m"
  "stream (unnamed_context p s m) = s"
  "prompt (unnamed_context p s m) = p"
  "system_prompt (unnamed_context p s m) = ''You are helpful''"
  "history (unnamed_context p s m) = []"
  by (simp_all add: unnamed_context_def ctx_of_def)

lemma sample_selected_send:
  "selected_send sample_wrappers (sample_context p s both_model) =
     sample_chat_send (sample_args p s both_model)"
  "selected_send sample_wrappers (sample_context p s completion_model) =
     sample_completion_send (sample_args p s completion_model)"
  by (simp_all add: selected_send_def sample_sub_modes sample_context_fields
      sample_wrappers_def)

lemma sample_selected_used_tokens:
  "selected_used_tokens sample_wrappers (sample_context p s both_model) = 7"
  "selected_used_tokens sample_wrappers (sample_context p s completion_model) = 5"
  by (simp_all add: selected_used_tokens_def sample_sub_modes sample_context_fields
      sample_wrappers_def)

section \<open>The dispatch of Chain.call\<close>

text \<open>
  Claim C1. Every call of \<^verbatim>\<open>Chain.call\<close> invokes \<^verbatim>\<open>send\<close> exactly once, and the wrapper it
  goes to is read from the model's \<^verbatim>\<open>langchain\<close> dictionary: the chat wrapper when the
  key \<^verbatim>\<open>'mode'\<close> is present with \<^verbatim>\<open>'chat'\<close> among its values; otherwise the completion
  wrapper when \<^verbatim>\<open>'completion'\<close> is among them; the chat wrapper in every other case (no
  \<^verbatim>\<open>'mode'\<close> key, or neither value listed).
\<close>

theorem Chain_call_selects_wrapper:
  "map fst (sends (trace (Chain_call W context))) =
     [if lists_mode (model context) ''chat'' then Chat
      else if lists_mode (model context) ''completion'' then Completion
      else Chat]"
proof (cases "select_sub_mode (model context) = ''chat''")
  case True
  then have "map fst (sends (trace (Chain_call W context))) = [Chat]"
    by (simp add: Chain_call_chat trace_def split: sum.split prod.split)
  moreover from True
  have "lists_mode (model context) ''chat'' \<or> \<not> lists_mode (model context) ''completion''"
    by (simp add: select_sub_mode_lists split: if_splits)
  ultimately show ?thesis by auto
next
  case False
  then have completion: "select_sub_mode (model context) = ''completion''"
    using select_sub_mode_cases by blast
  then have "map fst (sends (trace (Chain_call W context))) = [Completion]"
    by (simp add: Chain_call_completion trace_def split: sum.split prod.split)
  moreover from completion
  have "\<not> lists_mode (model context) ''chat'' \<and> lists_mode (model context) ''completion''"
    by (simp add: select_sub_mode_lists split: if_splits)
  ultimately show ?thesis by auto
qed

theorem Chain_call_selects_wrapper_witness:
  "map fst (sends (trace (Chain_call sample_wrappers (sample_context ''Hi'' False both_model))))
     = [Chat] \<and>
   map fst (sends (trace (Chain_call sample_wrappers
     (sample_context ''Hi'' False completion_model)))) = [Completion] \<and>
   map fst (sends (trace (Chain_call sample_wrappers (sample_context ''Hi'' False plain_model))))
     = [Chat]"
  using Chain_call_selects_wrapper [of sample_wrappers "sample_context ''Hi'' False both_model"]
    Chain_call_selects_wrapper [of sample_wrappers "sample_context ''Hi'' False completion_model"]
    Chain_call_selects_wrapper [of sample_wrappers "sample_context ''Hi'' False plain_model"]
  by (simp add: sample_context_fields sample_lists_mode)

text \<open>
  Claim C2. The one \<^verbatim>\<open>send\<close> of a call receives the bridge context's fields unchanged:
  \<^verbatim>\<open>prompt\<close>, \<^verbatim>\<open>system_prompt\<close>, \<^verbatim>\<open>model\<close>, \<^verbatim>\<open>history\<close> and \<^verbatim>\<open>stream\<close> are those of the context,
  \<^verbatim>\<open>user_name\<close> is the context item's \<^verbatim>\<open>input_name\<close> and \<^verbatim>\<open>ai_name\<close> its \<^verbatim>\<open>output_name\<close>.
\<close>

theorem Chain_call_forwards_fields:
  "map snd (sends (trace (Chain_call W context))) =
     [\<lparr>arg_prompt = prompt context,
       arg_system_prompt = system_prompt context,
       arg_model = model context,
       arg_history = history context,
       arg_stream = stream context,
       arg_ai_name = output_name (ctx_of context),
       arg_user_name = input_name (ctx_of context)\<rparr>]"
proof (cases "select_sub_mode (model context) = ''chat''")
  case True
  then show ?thesis
    by (simp add: Chain_call_chat trace_def send_args_of_def split: sum.split prod.split)
next
  case False
  then have "select_sub_mode (model context) = ''completion''"
    using select_sub_mode_cases by blast
  then show ?thesis
    by (simp add: Chain_call_completion trace_def send_args_of_def split: sum.split prod.split)
qed

theorem Chain_call_forwards_fields_witness:
  "map snd (sends (trace (Chain_call sample_wrappers
     (sample_context ''Hi'' True completion_model)))) =
     [\<lparr>arg_prompt = ''Hi'', arg_system_prompt = ''You are helpful'',
       arg_model = completion_model, arg_history = [], arg_stream = True,
       arg_ai_name = Some ''AI'', arg_user_name = Some ''User''\<rparr>]"
  using Chain_call_forwards_fields
    [of sample_wrappers "sample_context ''Hi'' True completion_model"]
  by (simp add: sample_context_fields sample_ctx_def)

section \<open>What Chain.call does with the response\<close>

text \<open>
  Claim C3. In a call with \<^verbatim>\<open>stream\<close> false whose selected wrapper returns a response
  that is not \<^verbatim>\<open>None\<close>, the result is copied into the context item and \<^verbatim>\<open>True\<close> is
  returned: under sub-mode \<^verbatim>\<open>'chat'\<close> the output handed to \<^verbatim>\<open>ctx.set_output\<close> is
  \<^verbatim>\<open>response.content\<close> (the response has that attribute, with value \<open>answer\<close>), under
  \<^verbatim>\<open>'completion'\<close> it is the response itself; the name handed over is \<^verbatim>\<open>ai_name\<close> in both.
\<close>

theorem Chain_call_stores_output:
  assumes "\<not> stream context"
    and "selected_send W context = Inr response"
    and "response \<noteq> PNone"
    and "select_sub_mode (model context) = ''chat'' \<longrightarrow> content response = Inr answer"
  shows "outcome (Chain_call W context) = Inr True \<and>
         ctx_after (Chain_call W context) =
           set_output
             (if select_sub_mode (model context) = ''chat'' then answer else response)
             (output_name (ctx_of context)) (ctx_of context)"
  using assms select_sub_mode_cases [of "model context"]
  by (auto simp: Chain_call_returned store_response_def)

theorem Chain_call_stores_output_witness:
  "selected_send sample_wrappers (sample_context ''Hi'' False both_model) =
     Inr (PMessage (PStr ''Hello'')) \<and>
   outcome (Chain_call sample_wrappers (sample_context ''Hi'' False both_model)) = Inr True \<and>
   ctx_after (Chain_call sample_wrappers (sample_context ''Hi'' False both_model)) =
     \<lparr>input_name = Some ''User'', output_name = Some ''AI'', ctx_output = PStr ''Hello'',
      ctx_stream = PNone, input_tokens = 3\<rparr> \<and>
   selected_send sample_wrappers (sample_context ''Hi'' False completion_model) =
     Inr (PStr ''Hello'') \<and>
   outcome (Chain_call sample_wrappers (sample_context ''Hi'' False completion_model)) =
     Inr True \<and>
   ctx_after (Chain_call sample_wrappers (sample_context ''Hi'' False completion_model)) =
     \<lparr>input_name = Some ''User'', output_name = Some ''AI'', ctx_output = PStr ''Hello'',
      ctx_stream = PNone, input_tokens = 3\<rparr>"
  using Chain_call_stores_output
    [of "sample_context ''Hi'' False both_model" sample_wrappers
       "PMessage (PStr ''Hello'')" "PStr ''Hello''"]
    Chain_call_stores_output
    [of "sample_context ''Hi'' False completion_model" sample_wrappers
       "PStr ''Hello''" PNone]
  by (simp add: sample_context_fields sample_selected_send sample_sub_modes
      sample_chat_send_def sample_completion_send_def sample_args_def set_output_def
      sample_ctx_def)

text \<open>
  Claim C4. In a call with \<^verbatim>\<open>stream\<close> true in which the selected wrapper's \<^verbatim>\<open>send\<close> returns,
  the response object is stored in \<^verbatim>\<open>ctx.stream\<close>, the wrapper's used token count in
  \<^verbatim>\<open>ctx.input_tokens\<close>, the output is set to the empty string with \<^verbatim>\<open>ai_name\<close>, and \<^verbatim>\<open>True\<close>
  is returned.
\<close>

theorem Chain_call_stream:
  assumes "stream context"
    and "selected_send W context = Inr response"
  shows "outcome (Chain_call W context) = Inr True \<and>
         ctx_after (Chain_call W context) =
           set_output (PStr '''') (output_name (ctx_of context))
             ((ctx_of context)\<lparr>ctx_stream := response,
                                input_tokens := selected_used_tokens W context\<rparr>)"
  using assms by (simp add: Chain_call_returned store_response_def)

theorem Chain_call_stream_witness:
  "stream (sample_context ''Hi'' True both_model) \<and>
   selected_send sample_wrappers (sample_context ''Hi'' True both_model) = Inr (PObject 1) \<and>
   outcome (Chain_call sample_wrappers (sample_context ''Hi'' True both_model)) = Inr True \<and>
   ctx_after (Chain_call sample_wrappers (sample_context ''Hi'' True both_model)) =
     \<lparr>input_name = Some ''User'', output_name = Some ''AI'', ctx_output = PStr '''',
      ctx_stream = PObject 1, input_tokens = 7\<rparr>"
  using Chain_call_stream
    [of "sample_context ''Hi'' True both_model" sample_wrappers "PObject 1"]
  by (simp add: sample_context_fields sample_selected_send sample_selected_used_tokens
      sample_chat_send_def sample_args_def set_output_def sample_ctx_def)

text \<open>
  Claim C8. When the selected wrapper's \<^verbatim>\<open>send\<close> returns \<^verbatim>\<open>None\<close>: with \<^verbatim>\<open>stream\<close> false
  the call returns \<^verbatim>\<open>False\<close> and leaves the context item as it was (\<^verbatim>\<open>ctx.set_output\<close> is
  not reached, so output text and output name are unchanged); with \<^verbatim>\<open>stream\<close> true it
  returns \<^verbatim>\<open>True\<close> all the same.
\<close>

theorem Chain_call_none_response:
  assumes "selected_send W context = Inr PNone"
  shows "(\<not> stream context \<longrightarrow>
            outcome (Chain_call W context) = Inr False \<and>
            ctx_after (Chain_call W context) = ctx_of context) \<and>
         (stream context \<longrightarrow> outcome (Chain_call W context) = Inr True)"
  using assms by (simp add: Chain_call_returned store_response_def)

theorem Chain_call_none_response_witness:
  "selected_send sample_wrappers (sample_context '''' False both_model) = Inr PNone \<and>
   outcome (Chain_call sample_wrappers (sample_context '''' False both_model)) = Inr False \<and>
   ctx_after (Chain_call sample_wrappers (sample_context '''' False both_model)) =
     sample_ctx \<and>
   selected_send sample_wrappers (sample_context '''' True both_model) = Inr PNone \<and>
   outcome (Chain_call sample_wrappers (sample_context '''' True both_model)) = Inr True"
  using Chain_call_none_response
    [of sample_wrappers "sample_context '''' False both_model"]
    Chain_call_none_response
    [of sample_wrappers "sample_context '''' True both_model"]
  by (simp add: sample_context_fields sample_selected_send sample_chat_send_def
      sample_args_def)

text \<open>
  Claim C9. When the selected wrapper's \<^verbatim>\<open>send\<close> raises an exception, \<^verbatim>\<open>Chain.call\<close> hands
  it to the window's debug logger and raises the same exception again; the context item
  is as it was (\<^verbatim>\<open>ctx.set_output\<close> and the assignments to \<^verbatim>\<open>ctx.stream\<close> and
  \<^verbatim>\<open>ctx.input_tokens\<close> are not reached), and nothing is called after the logger.
\<close>

theorem Chain_call_send_raises:
  assumes "selected_send W context = Inl e"
  shows "outcome (Chain_call W context) = Inl e \<and>
         ctx_after (Chain_call W context) = ctx_of context \<and>
         trace (Chain_call W context) =
           [if select_sub_mode (model context) = ''completion''
            then CompletionSend (send_args_of context)
            else ChatSend (send_args_of context),
            DebugLog e]"
  using assms select_sub_mode_cases [of "model context"]
  by (auto simp: selected_send_def Chain_call_chat Chain_call_completion outcome_def
      ctx_after_def trace_def)

theorem Chain_call_send_raises_witness:
  "selected_send sample_wrappers (sample_context ''boom'' True completion_model) =
     Inl (Raised ''timeout'') \<and>
   outcome (Chain_call sample_wrappers (sample_context ''boom'' True completion_model)) =
     Inl (Raised ''timeout'') \<and>
   ctx_after (Chain_call sample_wrappers (sample_context ''boom'' True completion_model)) =
     sample_ctx \<and>
   trace (Chain_call sample_wrappers (sample_context ''boom'' True completion_model)) =
     [CompletionSend (sample_args ''boom'' True completion_model),
      DebugLog (Raised ''timeout'')]"
  using Chain_call_send_raises
    [of sample_wrappers "sample_context ''boom'' True completion_model"
       "Raised ''timeout''"]
  by (simp add: sample_context_fields sample_selected_send sample_sub_modes
      sample_completion_send_def sample_args_def)

section \<open>What the outcome of Chain.call depends on\<close>

text \<open>
  Claim C6, as stated, fails: the outcome also depends on the context item \<^verbatim>\<open>ctx\<close> the
  bridge context carries (lines 40-46). The two sample contexts agree on prompt, system
  prompt, model, streaming flag and history; one item names the AI, the other does not.
  The wrapper is handed different arguments and the return values differ.
\<close>

theorem Chain_call_five_fields_counterexample:
  "prompt (sample_context ''Hi'' False both_model) =
     prompt (unnamed_context ''Hi'' False both_model) \<and>
   system_prompt (sample_context ''Hi'' False both_model) =
     system_prompt (unnamed_context ''Hi'' False both_model) \<and>
   model (sample_context ''Hi'' False both_model) =
     model (unnamed_context ''Hi'' False both_model) \<and>
   stream (sample_context ''Hi'' False both_model) =
     stream (unnamed_context ''Hi'' False both_model) \<and>
   history (sample_context ''Hi'' False both_model) =
     history (unnamed_context ''Hi'' False both_model) \<and>
   outcome (Chain_call sample_wrappers (sample_context ''Hi'' False both_model)) = Inr True \<and>
   outcome (Chain_call sample_wrappers (unnamed_context ''Hi'' False both_model)) =
     Inr False \<and>
   map arg_ai_name (map snd
     (sends (trace (Chain_call sample_wrappers (sample_context ''Hi'' False both_model))))) =
     [Some ''AI''] \<and>
   map arg_ai_name (map snd
     (sends (trace (Chain_call sample_wrappers (unnamed_context ''Hi'' False both_model))))) =
     [None]"
proof -
  have named_args: "send_args_of (sample_context ''Hi'' False both_model) =
      sample_args ''Hi'' False both_model"
    by (simp add: sample_context_fields)
  have unnamed_args: "send_args_of (unnamed_context ''Hi'' False both_model) =
      (sample_args ''Hi'' False both_model)\<lparr>arg_ai_name := None\<rparr>"
    by (simp add: send_args_of_def unnamed_context_fields unnamed_ctx_def sample_args_def)
  have named: "chat_send sample_wrappers (sample_args ''Hi'' False both_model) =
      Inr (PMessage (PStr ''Hello''))"
    by (simp add: sample_wrappers_def sample_chat_send_def sample_args_def)
  have unnamed:
    "chat_send sample_wrappers ((sample_args ''Hi'' False both_model)\<lparr>arg_ai_name := None\<rparr>) =
      Inr PNone"
    by (simp add: sample_wrappers_def sample_chat_send_def sample_args_def)
  have run_named: "Chain_call sample_wrappers (sample_context ''Hi'' False both_model) =
      (Inr True, set_output (PStr ''Hello'') (output_name sample_ctx) sample_ctx,
       [ChatSend (sample_args ''Hi'' False both_model), ChatGetUsedTokens])"
    by (simp add: Chain_call_chat sample_context_fields sample_sub_modes named
        store_response_def)
  have run_unnamed: "Chain_call sample_wrappers (unnamed_context ''Hi'' False both_model) =
      (Inr False, unnamed_ctx,
       [ChatSend ((sample_args ''Hi'' False both_model)\<lparr>arg_ai_name := None\<rparr>),
        ChatGetUsedTokens])"
    by (simp add: Chain_call_chat unnamed_context_fields sample_sub_modes unnamed_args
        unnamed store_response_def)
  show ?thesis
    unfolding run_named run_unnamed
    by (simp add: sample_context_fields unnamed_context_fields outcome_def trace_def
        sample_args_def)
qed

text \<open>
  Claim C6, amended. The outcome of \<^verbatim>\<open>Chain.call\<close> depends on its bridge context only
  through six things it carries: prompt, system prompt, model, streaming flag, history
  and the context item \<^verbatim>\<open>ctx\<close>. Two bridge contexts that agree on the six, whatever else
  they hold, give the same return value, the same calls with the same arguments and the
  same context item.
\<close>

theorem Chain_call_depends_on_six_fields:
  fixes c1 :: "'a bridge_context_scheme" and c2 :: "'b bridge_context_scheme"
  assumes "prompt c1 = prompt c2"
    and "system_prompt c1 = system_prompt c2"
    and "model c1 = model c2"
    and "stream c1 = stream c2"
    and "history c1 = history c2"
    and "ctx c1 = ctx c2"
  shows "Chain_call W c1 = Chain_call W c2"
proof -
  have item: "ctx_of c1 = ctx_of c2"
    using assms(6) by (simp add: ctx_of_def)
  have args: "send_args_of c1 = send_args_of c2"
    using assms(1-5) item by (simp add: send_args_of_def)
  show ?thesis
    unfolding Chain_call_def item args assms(3) assms(4) by (rule refl)
qed

theorem Chain_call_depends_on_six_fields_witness:
  "bridge_context.more (tagged_context ''Hi'' False both_model) = 42 \<and>
   Chain_call sample_wrappers (sample_context ''Hi'' False both_model) =
     Chain_call sample_wrappers (tagged_context ''Hi'' False both_model)"
  using Chain_call_depends_on_six_fields
    [of "sample_context ''Hi'' False both_model" "tagged_context ''Hi'' False both_model"
       sample_wrappers]
  by (simp add: sample_context_def tagged_context_def)

section \<open>The mode controller's calls\<close>

text \<open>
  Claim C7. For an index \<open>idx\<close> of the list, when the mode change is not locked (the chat
  input is not generating), \<^verbatim>\<open>Mode.select(idx)\<close> takes the mode name that
  \<^verbatim>\<open>modes.get_by_idx(idx)\<close> returns, applies it with \<^verbatim>\<open>Mode.set\<close>, and then dispatches one
  \<^verbatim>\<open>MODE_SELECT\<close> event whose \<^verbatim>\<open>'value'\<close> is that name.
\<close>

theorem Mode_select_dispatches:
  assumes "\<not> Mode_change_locked w"
    and "get_by_idx w idx = Inr mode"
  shows "Mode_select w idx =
           (Inr (), Mode_set w mode @ [Dispatch (Event MODE_SELECT [(''value'', mode)])])"
  using assms by (simp add: Mode_select_def)

theorem Mode_select_dispatches_witness:
  "Mode_change_locked sample_window = False \<and>
   get_by_idx sample_window 1 = Inr ''completion'' \<and>
   Mode_select sample_window 1 =
     (Inr (),
      [ConfigSet ''mode'' ''completion'', ConfigSet ''model'' '''', ConfigSet ''preset'' '''',
       AttachmentUpdate, CtxUpdateCtx, UiUpdate, UiStatus ''Ready'',
       Dispatch (Event MODE_SELECT [(''value'', ''completion'')])])"
  using Mode_select_dispatches [of sample_window 1 "''completion''"]
  by (simp add: Mode_change_locked_def sample_window_def sample_get_by_idx_def Mode_set_def
      sample_trans_def)

text \<open>
  Claim C10. For every mode name, the writes \<^verbatim>\<open>Mode.set(mode)\<close> makes to the configuration
  are, in this order: the name under \<^verbatim>\<open>'mode'\<close>, the empty string under \<^verbatim>\<open>'model'\<close> and the
  empty string under \<^verbatim>\<open>'preset'\<close>; the two resets happen whichever mode is selected.
\<close>

theorem Mode_set_config_writes:
  "config_writes (Mode_set w mode) =
     [(''mode'', mode), (''model'', ''''), (''preset'', '''')]"
  by (simp add: Mode_set_def config_writes_append split: option.split prod.split)

theorem Mode_set_config_writes_witness:
  "Mode_set sample_window ''assistant'' =
     [PresetsSelectDefault, AssistantSelectById ''asst_1'',
      ConfigSet ''mode'' ''assistant'', ConfigSet ''model'' '''', ConfigSet ''preset'' '''',
      AttachmentUpdate, CtxUpdateCtx, UiUpdate, UiStatus ''Ready'',
      CtxCommonUpdateLabelByCurrent] \<and>
   config_writes (Mode_set sample_window ''assistant'') =
     [(''mode'', ''assistant''), (''model'', ''''), (''preset'', '''')]"
  using Mode_set_config_writes [of sample_window "''assistant''"]
  by (simp add: Mode_set_def sample_window_def sample_trans_def)

end
